theory Spec2Isabelle
  imports Complex_Main
begin

section \<open>JavaScript values and computations\<close>

text \<open>
  The library is generic in its payload types, but \<open>flatten\<close> inspects a payload at run
  time (\<open>this.data instanceof Option\<close>), and the nullable constructors compare a payload
  with \<open>null\<close> and \<open>undefined\<close>. A payload is therefore a run-time value: the two
  sentinels, an \<open>Error\<close> object (what \<open>panic\<close> throws; only its message is kept), an
  \<open>Option\<close> or \<open>Result\<close> instance, or any other value, left abstract as \<open>Prim\<close>.

  The two classes have the fields of their private constructors: the discriminant
  \<open>__kind\<close> and \<open>data\<close>.
\<close>

datatype OptionKind = OptionKind_Some | OptionKind_None

datatype ResultKind = ResultKind_Ok | ResultKind_Err

datatype 'p val =
    Undefined
  | Null
  | Prim 'p
  | Error string
  | OptionV "'p Option"
  | ResultV "'p Result"
and 'p Option = Option (Option_kind: OptionKind) (Option_data: "'p val")
and 'p Result = Result (Result_kind: ResultKind) (Result_data: "'p val")

text \<open>
  A call of a function written by the library's user may change the state of the program
  and may throw instead of returning. A computation takes the state and gives back either
  the thrown value (\<open>Inl\<close>) or the returned one (\<open>Inr\<close>), with the new state. How often
  and when a callback is invoked is then visible in the state. Callbacks are assumed
  to come back (by returning or by throwing).
\<close>

type_synonym ('a, 'e, 's) js = "'s \<Rightarrow> ('e + 'a) \<times> 's"

definition js_return :: "'a \<Rightarrow> ('a, 'e, 's) js" where
  "js_return v = (\<lambda>s. (Inr v, s))"

definition js_throw :: "'e \<Rightarrow> ('a, 'e, 's) js" where
  "js_throw x = (\<lambda>s. (Inl x, s))"

text \<open>\<open>js_bind m k\<close>: evaluate \<open>m\<close>, then \<open>k\<close> on its value; a throw of \<open>m\<close> skips \<open>k\<close>.\<close>

definition js_bind :: "('a, 'e, 's) js \<Rightarrow> ('a \<Rightarrow> ('b, 'e, 's) js) \<Rightarrow> ('b, 'e, 's) js" where
  "js_bind m k = (\<lambda>s. case m s of (Inl x, s') \<Rightarrow> (Inl x, s') | (Inr v, s') \<Rightarrow> k v s')"

text \<open>\<open>try { body } catch (e) { handler }\<close>: every thrown value is caught.\<close>

definition js_try_catch :: "('a, 'e, 's) js \<Rightarrow> ('e \<Rightarrow> ('a, 'e, 's) js) \<Rightarrow> ('a, 'e, 's) js" where
  "js_try_catch body handler =
     (\<lambda>s. case body s of (Inl x, s') \<Rightarrow> handler x s' | (Inr v, s') \<Rightarrow> (Inr v, s'))"

section \<open>helpers.ts\<close>

text \<open>\<open>throw new Error(`panicked at '${msg}'`)\<close>; the result type \<open>never\<close> is any type.\<close>

definition panic :: "string \<Rightarrow> ('a, 'p val, 's) js" where
  "panic msg = js_throw (Error (''panicked at '' @ [CHR 0x27] @ msg @ [CHR 0x27]))"

section \<open>result.ts\<close>

definition Result_ok :: "'p val \<Rightarrow> 'p Result" where
  "Result_ok v = Result ResultKind_Ok v"

definition Result_err :: "'p val \<Rightarrow> 'p Result" where
  "Result_err error = Result ResultKind_Err error"

definition Result_tryFrom :: "('p val, 'p val, 's) js \<Rightarrow> 'p val \<Rightarrow> ('p Result, 'p val, 's) js" where
  "Result_tryFrom fn error =
     js_try_catch (js_bind fn (\<lambda>v. js_return (Result_ok v))) (\<lambda>e. js_return (Result_err error))"

definition Result_fromNullable :: "'p val \<Rightarrow> 'p val \<Rightarrow> 'p Result" where
  "Result_fromNullable v error =
     (if v = Null \<or> v = Undefined then Result_err error else Result_ok v)"

definition Result_tryFromNullable ::
  "('p val, 'p val, 's) js \<Rightarrow> 'p val \<Rightarrow> ('p Result, 'p val, 's) js" where
  "Result_tryFromNullable fn error =
     js_try_catch (js_bind fn (\<lambda>v. js_return (Result_fromNullable v error)))
       (\<lambda>e. js_return (Result_err error))"

definition Result_isOk :: "'p Result \<Rightarrow> bool" where
  "Result_isOk this = (Result_kind this = ResultKind_Ok)"

definition Result_isErr :: "'p Result \<Rightarrow> bool" where
  "Result_isErr this = (Result_kind this = ResultKind_Err)"

text \<open>\<open>if (this.isErr()) { panic(message); } return this.data as T;\<close>\<close>

definition Result_expect :: "'p Result \<Rightarrow> string \<Rightarrow> ('p val, 'p val, 's) js" where
  "Result_expect this message =
     js_bind (if Result_isErr this then panic message else js_return ())
       (\<lambda>_. js_return (Result_data this))"

definition Result_unwrap :: "'p Result \<Rightarrow> ('p val, 'p val, 's) js" where
  "Result_unwrap this = Result_expect this ''called `Result.unwrap()` on an `Err` value''"

definition Result_expectErr :: "'p Result \<Rightarrow> string \<Rightarrow> ('p val, 'p val, 's) js" where
  "Result_expectErr this message =
     js_bind (if Result_isOk this then panic message else js_return ())
       (\<lambda>_. js_return (Result_data this))"

definition Result_unwrapErr :: "'p Result \<Rightarrow> ('p val, 'p val, 's) js" where
  "Result_unwrapErr this = Result_expectErr this ''called `Result.unwrapErr()` on an `Ok` value''"

text \<open>
  \<open>flatten\<close> calls itself on the payload as long as the payload is a \<open>Result\<close>, whatever
  the variant of \<open>this\<close>. The recursion is defined without a termination argument:
  \<open>None\<close> is a call that does not return.
\<close>

partial_function (option) Result_flatten :: "'p Result \<Rightarrow> 'p Result option" where
  "Result_flatten this =
     (case Result_data this of
        ResultV inner \<Rightarrow> Result_flatten inner
      | _ \<Rightarrow> Some this)"

section \<open>option.ts\<close>

text \<open>\<open>Option.none\<close> is the one instance built with \<open>new Option(OptionKind.None)\<close>: no data.\<close>

definition Option_none :: "'p Option" where
  "Option_none = Option OptionKind_None Undefined"

definition Option_some :: "'p val \<Rightarrow> 'p Option" where
  "Option_some v = Option OptionKind_Some v"

definition Option_tryFrom :: "('p val, 'p val, 's) js \<Rightarrow> ('p Option, 'p val, 's) js" where
  "Option_tryFrom fn =
     js_try_catch (js_bind fn (\<lambda>v. js_return (Option_some v))) (\<lambda>e. js_return Option_none)"

definition Option_fromNullable :: "'p val \<Rightarrow> 'p Option" where
  "Option_fromNullable v = (if v = Null \<or> v = Undefined then Option_none else Option_some v)"

definition Option_tryFromNullable :: "('p val, 'p val, 's) js \<Rightarrow> ('p Option, 'p val, 's) js" where
  "Option_tryFromNullable fn =
     js_try_catch (js_bind fn (\<lambda>v. js_return (Option_fromNullable v)))
       (\<lambda>e. js_return Option_none)"

definition Option_isSome :: "'p Option \<Rightarrow> bool" where
  "Option_isSome this = (Option_kind this = OptionKind_Some)"

definition Option_isNone :: "'p Option \<Rightarrow> bool" where
  "Option_isNone this = (Option_kind this = OptionKind_None)"

definition Option_okOr :: "'p Option \<Rightarrow> 'p val \<Rightarrow> 'p Result" where
  "Option_okOr this error =
     (if Option_isSome this then Result_ok (Option_data this) else Result_err error)"

definition Option_okOrElse :: "'p Option \<Rightarrow> ('p val, 'p val, 's) js \<Rightarrow> ('p Result, 'p val, 's) js" where
  "Option_okOrElse this error =
     (if Option_isSome this then js_return (Result_ok (Option_data this))
      else js_bind error (\<lambda>e. js_return (Result_err e)))"

definition Option_expect :: "'p Option \<Rightarrow> string \<Rightarrow> ('p val, 'p val, 's) js" where
  "Option_expect this message =
     js_bind (if Option_isNone this then panic message else js_return ())
       (\<lambda>_. js_return (Option_data this))"

definition Option_unwrap :: "'p Option \<Rightarrow> ('p val, 'p val, 's) js" where
  "Option_unwrap this = Option_expect this ''called `Option.unwrap()` on a `None` value''"

definition Option_map :: "'p Option \<Rightarrow> ('p val \<Rightarrow> ('p val, 'p val, 's) js) \<Rightarrow> ('p Option, 'p val, 's) js" where
  "Option_map this mapper =
     (if Option_isSome this
      then js_bind (mapper (Option_data this)) (\<lambda>u. js_return (Option_some u))
      else js_return Option_none)"

text \<open>\<open>if (this.isSome() && this.data instanceof Option) ... else return this\<close>\<close>

partial_function (option) Option_flatten :: "'p Option \<Rightarrow> 'p Option option" where
  "Option_flatten this =
     (if Option_isSome this
      then (case Option_data this of
              OptionV inner \<Rightarrow> Option_flatten inner
            | _ \<Rightarrow> Some this)
      else Some this)"

text \<open>
  The constructor is private, so the instances of \<open>Option\<close> that exist are those made by
  \<open>Option.some\<close> and the instance \<open>Option.none\<close>.
\<close>

definition Option_instance :: "'p Option \<Rightarrow> bool" where
  "Option_instance this = (Option_isSome this \<or> this = Option_none)"

text \<open>How many containers of the same class are nested in the payload.\<close>

fun Option_nesting :: "'p Option \<Rightarrow> nat" where
  "Option_nesting (Option k (OptionV inner)) = Suc (Option_nesting inner)"
| "Option_nesting (Option k d) = 0"

fun Result_nesting :: "'p Result \<Rightarrow> nat" where
  "Result_nesting (Result k (ResultV inner)) = Suc (Result_nesting inner)"
| "Result_nesting (Result k d) = 0"

section \<open>io.ts\<close>

text \<open>
  A future is seen at the end of its life: resolved with a value, rejected with a reason,
  or never settled. The callbacks of \<open>then\<close> and \<open>catch\<close> run when the future has
  settled, in the state reached by then; a callback that throws rejects the future that
  \<open>then\<close> or \<open>catch\<close> returned, and a callback that returns a future hands its outcome
  over to it. \<open>Promise.resolve\<close> makes a future resolved with the value it is given,
  unless that value is a future itself (\<open>Inr\<close>), which it gives back as it is.
\<close>

datatype ('a, 'e) Promise = Resolved 'a | Rejected 'e | Pending

definition Promise_resolve :: "'a + ('a, 'e) Promise \<Rightarrow> ('a, 'e) Promise" where
  "Promise_resolve v = (case v of Inl c \<Rightarrow> Resolved c | Inr p \<Rightarrow> p)"

definition Promise_then ::
  "('a, 'e) Promise \<Rightarrow> ('a \<Rightarrow> (('b, 'e) Promise, 'e, 's) js) \<Rightarrow> 's \<Rightarrow> ('b, 'e) Promise \<times> 's" where
  "Promise_then p onFulfilled s =
     (case p of
        Resolved v \<Rightarrow>
          (case onFulfilled v s of (Inl x, s') \<Rightarrow> (Rejected x, s') | (Inr q, s') \<Rightarrow> (q, s'))
      | Rejected e \<Rightarrow> (Rejected e, s)
      | Pending \<Rightarrow> (Pending, s))"

definition Promise_catch ::
  "('a, 'e) Promise \<Rightarrow> ('e \<Rightarrow> (('a, 'e) Promise, 'e, 's) js) \<Rightarrow> 's \<Rightarrow> ('a, 'e) Promise \<times> 's" where
  "Promise_catch p onRejected s =
     (case p of
        Resolved v \<Rightarrow> (Resolved v, s)
      | Rejected e \<Rightarrow>
          (case onRejected e s of (Inl x, s') \<Rightarrow> (Rejected x, s') | (Inr q, s') \<Rightarrow> (q, s'))
      | Pending \<Rightarrow> (Pending, s))"

text \<open>The class holds one field, the producer \<open>effect: () => Promise<T>\<close>.\<close>

datatype ('a, 'e, 's) IO = IO (effect: "(('a, 'e) Promise, 'e, 's) js")

text \<open>
  The argument of \<open>IO.from\<close>, of type \<open>T | IO<T>\<close>, as the tests made on it at run time
  see it: an instance of \<open>IO\<close> (\<open>Wrapped\<close>), a future (\<open>Future\<close>), or any other value
  (\<open>Plain\<close>). \<open>value instanceof IO\<close> holds of the first only, and \<open>Promise.resolve\<close>
  tells the other two apart.
\<close>

datatype ('a, 'e, 's) value_or_IO =
    Plain 'a
  | Future "('a, 'e) Promise"
  | Wrapped "('a, 'e, 's) IO"

definition IO_from :: "('a, 'e, 's) value_or_IO \<Rightarrow> ('a, 'e, 's) IO" where
  "IO_from v =
     (case v of
        Wrapped io \<Rightarrow> IO (effect io)
      | Plain c \<Rightarrow> IO (js_return (Promise_resolve (Inl c)))
      | Future p \<Rightarrow> IO (js_return (Promise_resolve (Inr p))))"

definition IO_fromPromise :: "(('a, 'e) Promise, 'e, 's) js \<Rightarrow> ('a, 'e, 's) IO" where
  "IO_fromPromise promise = IO promise"

text \<open>\<open>new IO(() => this.effect().catch((error) => handler(error).effect()))\<close>\<close>

definition IO_catch ::
  "('a, 'e, 's) IO \<Rightarrow> ('e \<Rightarrow> (('a, 'e, 's) IO, 'e, 's) js) \<Rightarrow> ('a, 'e, 's) IO" where
  "IO_catch this handler =
     IO (js_bind (effect this)
           (\<lambda>p s. case Promise_catch p (\<lambda>error. js_bind (handler error) effect) s of
                     (q, s') \<Rightarrow> (Inr q, s')))"

text \<open>\<open>new IO(() => this.effect().then((result) => mapper(result).effect()))\<close>\<close>

definition IO_chain ::
  "('a, 'e, 's) IO \<Rightarrow> ('a \<Rightarrow> (('b, 'e, 's) IO, 'e, 's) js) \<Rightarrow> ('b, 'e, 's) IO" where
  "IO_chain this mapper =
     IO (js_bind (effect this)
           (\<lambda>p s. case Promise_then p (\<lambda>result. js_bind (mapper result) effect) s of
                     (q, s') \<Rightarrow> (Inr q, s')))"

definition IO_run :: "('a, 'e, 's) IO \<Rightarrow> (('a, 'e) Promise, 'e, 's) js" where
  "IO_run this = effect this"

section \<open>Evaluation rules\<close>

lemma js_return_apply: "js_return v s = (Inr v, s)"
  by (simp add: js_return_def)

lemma js_throw_apply: "js_throw x s = (Inl x, s)"
  by (simp add: js_throw_def)

lemma panic_apply:
  "panic msg s = (Inl (Error (''panicked at '' @ [CHR 0x27] @ msg @ [CHR 0x27])), s)"
  by (simp add: panic_def js_throw_def)

lemma Option_flatten_returns: "\<exists>r. Option_flatten opt = Some r"
proof (induction opt rule: Option_nesting.induct)
  case (1 k inner)
  then show ?case
    by (subst Option_flatten.simps) simp
qed (simp_all add: Option_flatten.simps)

lemma Result_flatten_returns: "\<exists>r. Result_flatten res = Some r"
proof (induction res rule: Result_nesting.induct)
  case (1 k inner)
  then show ?case
    by (subst Result_flatten.simps) simp
qed (simp_all add: Result_flatten.simps)

lemma IO_chain_resolved:
  "IO_run this s = (Inr (Resolved v), s1) \<Longrightarrow> mapper v s1 = (Inr next, s2) \<Longrightarrow>
   IO_run next s2 = (Inr q, s3) \<Longrightarrow> IO_run (IO_chain this mapper) s = (Inr q, s3)"
  by (simp add: IO_run_def IO_chain_def Promise_then_def js_bind_def)

section \<open>Flattening\<close>

text \<open>
  C10. \<open>Option.flatten\<close> and \<open>Result.flatten\<close> return for every container: the call
  on \<open>opt\<close> and the call on \<open>res\<close> both produce a result, and the container held as
  the payload, the only one a recursive call is made on, is nested strictly less deeply
  than the container that holds it.
\<close>

theorem flatten_terminates:
  "(\<exists>r. Option_flatten opt = Some r) \<and> (\<exists>r. Result_flatten res = Some r)
   \<and> (Option_data opt = OptionV oinner \<longrightarrow> Option_nesting oinner < Option_nesting opt)
   \<and> (Result_data res = ResultV rinner \<longrightarrow> Result_nesting rinner < Result_nesting res)"
  using Option_flatten_returns[of opt] Result_flatten_returns[of res]
  by (cases opt; cases res) simp

theorem flatten_terminates_witness:
  "Option_data (Option_some (OptionV (Option_some (OptionV (Option_some (Prim (1::int)))))))
     = OptionV (Option_some (OptionV (Option_some (Prim 1))))
   \<and> Result_data (Result_ok (ResultV (Result_err (ResultV (Result_ok (Prim (1::int)))))))
     = ResultV (Result_err (ResultV (Result_ok (Prim 1))))
   \<and> Option_flatten (Option_some (OptionV (Option_some (OptionV (Option_some (Prim (1::int)))))))
     = Some (Option_some (Prim 1))
   \<and> Result_flatten (Result_ok (ResultV (Result_err (ResultV (Result_ok (Prim (1::int)))))))
     = Some (Result_ok (Prim 1))
   \<and> Option_nesting (Option_some (OptionV (Option_some (Prim (1::int)))))
       < Option_nesting (Option_some (OptionV (Option_some (OptionV (Option_some (Prim (1::int)))))))
   \<and> Result_nesting (Result_err (ResultV (Result_ok (Prim (1::int)))))
       < Result_nesting (Result_ok (ResultV (Result_err (ResultV (Result_ok (Prim (1::int)))))))"
  using flatten_terminates
    [of "Option_some (OptionV (Option_some (OptionV (Option_some (Prim (1::int))))))"
        "Result_ok (ResultV (Result_err (ResultV (Result_ok (Prim (1::int))))))"
        "Option_some (OptionV (Option_some (Prim (1::int))))"
        "Result_err (ResultV (Result_ok (Prim (1::int))))"]
  by (simp add: Option_flatten.simps Result_flatten.simps Option_some_def Result_ok_def
      Result_err_def Option_isSome_def)

text \<open>
  C2. The claim holds of \<open>Option.flatten\<close>, which tests \<open>isSome()\<close> before it looks at the
  payload, and fails of \<open>Result.flatten\<close>, which has no such test: flattening
  \<open>Err(Ok(42))\<close> gives \<open>Ok(42)\<close>, not the \<open>Err\<close> container itself, whereas \<open>None\<close>
  flattens to itself.
\<close>

theorem Result_flatten_err_of_result:
  "Result_flatten (Result_err (ResultV (Result_ok (Prim (42::int)))))
     = Some (Result_ok (Prim 42))
   \<and> Result_flatten (Result_err (ResultV (Result_ok (Prim (42::int)))))
     \<noteq> Some (Result_err (ResultV (Result_ok (Prim 42))))
   \<and> Option_flatten (Option_none :: int Option) = Some Option_none"
  by (simp add: Result_flatten.simps Option_flatten.simps Result_err_def Result_ok_def
      Option_none_def Option_isSome_def)

section \<open>Panics\<close>

text \<open>
  C3, as the code has it. The default messages carry backquotes around the name of the
  operation and around the name of the variant: \<open>unwrap()\<close> on \<open>None\<close> throws an
  \<open>Error\<close> whose message is \<open>panicked at '\<close>, then the text
  \<^verbatim>\<open>called `Option.unwrap()` on a `None` value\<close>, then a closing quote; \<open>unwrap()\<close> on
  an \<open>Err\<close> and \<open>unwrapErr()\<close> on an \<open>Ok\<close> do the same with
  \<^verbatim>\<open>called `Result.unwrap()` on an `Err` value\<close> and
  \<^verbatim>\<open>called `Result.unwrapErr()` on an `Ok` value\<close>.
\<close>

theorem unwrap_default_messages:
  "Option_unwrap Option_none s
     = (Inl (Error (''panicked at 'called `Option.unwrap()` on a `None` value'' @ [CHR 0x27])), s)
   \<and> Result_unwrap (Result_err e) s
     = (Inl (Error (''panicked at 'called `Result.unwrap()` on an `Err` value'' @ [CHR 0x27])), s)
   \<and> Result_unwrapErr (Result_ok v) s
     = (Inl (Error (''panicked at 'called `Result.unwrapErr()` on an `Ok` value'' @ [CHR 0x27])), s)"
  by (simp add: Option_unwrap_def Option_expect_def Option_isNone_def Option_none_def
      Result_unwrap_def Result_expect_def Result_isErr_def Result_err_def
      Result_unwrapErr_def Result_expectErr_def Result_isOk_def Result_ok_def
      js_bind_def panic_apply)

text \<open>
  C3, as the claim words it: the messages without the backquotes are not the ones thrown.
\<close>

theorem unwrap_default_messages_counterexample:
  "Option_unwrap (Option_none :: int Option) ()
     \<noteq> (Inl (Error (''panicked at 'called Option.unwrap() on a None value'' @ [CHR 0x27])), ())
   \<and> Result_unwrap (Result_err (Prim (0::int))) ()
     \<noteq> (Inl (Error (''panicked at 'called Result.unwrap() on an Err value'' @ [CHR 0x27])), ())
   \<and> Result_unwrapErr (Result_ok (Prim (0::int))) ()
     \<noteq> (Inl (Error (''panicked at 'called Result.unwrapErr() on an Ok value'' @ [CHR 0x27])), ())"
  by (simp add: Option_unwrap_def Option_expect_def Option_isNone_def Option_none_def
      Result_unwrap_def Result_expect_def Result_isErr_def Result_err_def
      Result_unwrapErr_def Result_expectErr_def Result_isOk_def Result_ok_def
      js_bind_def panic_apply)





section \<open>Constructors\<close>

text \<open>
  C9. \<open>Option.some\<close> does not look at its argument: for every value \<open>v\<close>, the sentinels
  included, \<open>some(v)\<close> is a \<open>Some\<close>, unwraps to \<open>v\<close> and differs from \<open>Option.none\<close>;
  \<open>tryFrom\<close> wraps whatever its function returns in the same way. \<open>fromNullable\<close> and
  \<open>tryFromNullable\<close> give \<open>None\<close> exactly on \<open>null\<close> and \<open>undefined\<close>.
\<close>

theorem Option_some_never_inspects:
  "Option_isSome (Option_some (v :: 'p val))
   \<and> Option_unwrap (Option_some v) s = (Inr v, s)
   \<and> Option_some v \<noteq> Option_none
   \<and> Option_some (Null :: 'p val) \<noteq> Option_none
   \<and> Option_some (Undefined :: 'p val) \<noteq> Option_none
   \<and> Option_tryFrom (js_return v) s = (Inr (Option_some v), s)
   \<and> (Option_fromNullable v = Option_none) = (v = Null \<or> v = Undefined)
   \<and> (Option_tryFromNullable (js_return v) s = (Inr Option_none, s)) = (v = Null \<or> v = Undefined)"
  by (simp add: Option_isSome_def Option_some_def Option_none_def Option_unwrap_def
      Option_expect_def Option_isNone_def Option_tryFrom_def Option_fromNullable_def
      Option_tryFromNullable_def js_bind_def js_return_def js_try_catch_def)

theorem Option_some_never_inspects_witness:
  "Option_isSome (Option_some (Null :: int val))
   \<and> Option_unwrap (Option_some (Undefined :: int val)) () = (Inr Undefined, ())
   \<and> Option_some (Undefined :: int val) \<noteq> Option_none
   \<and> Option_tryFrom (js_return (Undefined :: int val)) () = (Inr (Option_some Undefined), ())
   \<and> Option_fromNullable (Undefined :: int val) = Option_none
   \<and> Option_tryFromNullable (js_return (Undefined :: int val)) () = (Inr Option_none, ())
   \<and> Option_fromNullable (Prim (0::int)) \<noteq> Option_none"
  using Option_some_never_inspects [of "Null :: int val" "()"]
    Option_some_never_inspects [of "Undefined :: int val" "()"]
    Option_some_never_inspects [of "Prim (0::int)" "()"]
  by simp

text \<open>
  C5. When \<open>fn\<close> returns \<open>v\<close>, \<open>Result.tryFrom(fn, e)\<close> is \<open>Ok(v)\<close> and unwraps to \<open>v\<close>;
  when \<open>fn\<close> throws, whatever it throws, \<open>Result.tryFrom(fn, e)\<close> is \<open>Err(e)\<close>, its
  \<open>unwrapErr()\<close> is \<open>e\<close>, and \<open>Result.tryFromNullable(fn, e)\<close> is \<open>Err(e)\<close> too.
  \<open>Result.tryFromNullable(fn, e)\<close> is also \<open>Err(e)\<close> when \<open>fn\<close> returns \<open>null\<close> or
  \<open>undefined\<close>, and \<open>Ok(v)\<close> when it returns any other \<open>v\<close>. In the spec's example
  \<open>() => JSON.parse("42")\<close> is a function that returns 42 and
  \<open>() => JSON.parse("invalid")\<close> one that throws.
\<close>

theorem Result_tryFrom_converts:
  "(fn s = (Inr v, s1) \<longrightarrow>
      Result_tryFrom fn e s = (Inr (Result_ok v), s1)
    \<and> js_bind (Result_tryFrom fn e) Result_unwrap s = (Inr v, s1))
   \<and> (fn s = (Inl x, s1) \<longrightarrow>
      Result_tryFrom fn e s = (Inr (Result_err e), s1)
    \<and> js_bind (Result_tryFrom fn e) Result_unwrapErr s = (Inr e, s1)
    \<and> Result_tryFromNullable fn e s = (Inr (Result_err e), s1))
   \<and> (fn s = (Inr v, s1) \<and> (v = Null \<or> v = Undefined) \<longrightarrow>
      Result_tryFromNullable fn e s = (Inr (Result_err e), s1))
   \<and> (fn s = (Inr v, s1) \<and> v \<noteq> Null \<and> v \<noteq> Undefined \<longrightarrow>
      Result_tryFromNullable fn e s = (Inr (Result_ok v), s1))"
  by (simp add: Result_tryFrom_def Result_tryFromNullable_def Result_fromNullable_def
      Result_unwrap_def Result_expect_def Result_unwrapErr_def Result_expectErr_def
      Result_isOk_def Result_isErr_def Result_ok_def Result_err_def
      js_try_catch_def js_bind_def js_return_def)

theorem Result_tryFrom_converts_witness:
  "js_return (Prim (42::int)) () = (Inr (Prim 42), ())
   \<and> js_throw (Error ''SyntaxError'' :: int val) () = (Inl (Error ''SyntaxError''), ())
   \<and> js_return (Null :: int val) () = (Inr Null, ())
   \<and> js_bind (Result_tryFrom (js_return (Prim (42::int))) (Error ''should not happen''))
        Result_unwrap () = (Inr (Prim 42), ())
   \<and> js_bind (Result_tryFrom (js_throw (Error ''SyntaxError'' :: int val)) (Error ''should happen''))
        Result_unwrapErr () = (Inr (Error ''should happen''), ())
   \<and> Result_tryFromNullable (js_throw (Error ''SyntaxError'' :: int val)) (Error ''should happen'') ()
       = (Inr (Result_err (Error ''should happen'')), ())
   \<and> Result_tryFromNullable (js_return (Null :: int val)) (Error ''should happen'') ()
       = (Inr (Result_err (Error ''should happen'')), ())
   \<and> Result_tryFromNullable (js_return (Prim (42::int))) (Error ''should not happen'') ()
       = (Inr (Result_ok (Prim 42)), ())"
  using Result_tryFrom_converts
          [of "js_return (Prim (42::int))" "()" "Prim 42" "()" "Error ''should not happen''"]
        Result_tryFrom_converts
          [of "js_throw (Error ''SyntaxError'' :: int val)" "()" _ "()" "Error ''should happen''"
              "Error ''SyntaxError''"]
        Result_tryFrom_converts
          [of "js_return (Null :: int val)" "()" Null "()" "Error ''should happen''"]
  by (simp add: js_return_apply js_throw_apply)

section \<open>Mapping and conversion\<close>

text \<open>
  C7. \<open>Option.map\<close> obeys the functor laws, side effects and exceptions of the mappers
  included: mapping the identity over an instance \<open>opt\<close> of either variant returns a
  container equal to \<open>opt\<close>, and mapping \<open>f\<close> then \<open>g\<close> is mapping \<open>x => g(f(x))\<close>.
\<close>

theorem Option_map_functor_laws:
  "(Option_instance opt \<longrightarrow> Option_map opt js_return = js_return opt)
   \<and> js_bind (Option_map opt f) (\<lambda>mapped. Option_map mapped g)
       = Option_map opt (\<lambda>x. js_bind (f x) g)"
proof (intro conjI impI)
  assume "Option_instance opt"
  then show "Option_map opt js_return = js_return opt"
    by (cases opt) (auto simp: Option_instance_def Option_map_def Option_isSome_def
        Option_none_def Option_some_def js_bind_def js_return_def)
next
  show "js_bind (Option_map opt f) (\<lambda>mapped. Option_map mapped g)
       = Option_map opt (\<lambda>x. js_bind (f x) g)"
    by (rule ext) (auto simp: Option_map_def Option_isSome_def
        Option_none_def Option_some_def js_bind_def js_return_def split: prod.splits sum.splits)
qed

theorem Option_map_functor_laws_witness:
  "Option_instance (Option_some (Prim (3::int))) \<and> Option_instance (Option_none :: int Option)
   \<and> Option_map (Option_some (Prim (3::int))) js_return (0::nat) = (Inr (Option_some (Prim 3)), 0)
   \<and> Option_map (Option_none :: int Option) js_return (0::nat) = (Inr Option_none, 0)
   \<and> js_bind (Option_map (Option_some (Prim (3::int))) (\<lambda>x n. (Inr (OptionV (Option_some x)), Suc n)))
        (\<lambda>mapped. Option_map mapped (\<lambda>y n. (Inr (ResultV (Result_ok y)), 2 * n))) (1::nat)
       = (Inr (Option_some (ResultV (Result_ok (OptionV (Option_some (Prim 3)))))), 4)
   \<and> Option_map (Option_some (Prim (3::int)))
        (\<lambda>x. js_bind (\<lambda>n. (Inr (OptionV (Option_some x)), Suc n))
                (\<lambda>y n. (Inr (ResultV (Result_ok y)), 2 * n))) (1::nat)
       = (Inr (Option_some (ResultV (Result_ok (OptionV (Option_some (Prim 3)))))), 4)"
  using Option_map_functor_laws
          [of "Option_some (Prim (3::int))" "\<lambda>x n. (Inr (OptionV (Option_some x)), Suc n)"
              "\<lambda>y n. (Inr (ResultV (Result_ok y)), 2 * n)"]
        Option_map_functor_laws
          [of "Option_none :: int Option" "\<lambda>x n. (Inr (OptionV (Option_some x)), Suc n)"
              "\<lambda>y n. (Inr (ResultV (Result_ok y)), 2 * n)"]
  by (simp add: Option_instance_def Option_isSome_def Option_some_def Option_none_def
      Option_map_def js_bind_def js_return_def)

text \<open>
  C6. \<open>some(v).okOr(e)\<close> is \<open>Ok(v)\<close> and \<open>none.okOr(e)\<close> is \<open>Err(e)\<close>. On a \<open>Some\<close>,
  \<open>okOrElse(errorFn)\<close> gives the same \<open>Ok(v)\<close> and leaves the state as it was, whatever
  \<open>errorFn\<close> would do to it (no invocation); on \<open>None\<close> it is \<open>Err(e)\<close> for the \<open>e\<close> that
  \<open>errorFn\<close> returns, in the state \<open>errorFn\<close> leaves.
\<close>

theorem Option_okOr_exact:
  "Option_okOr (Option_some v) e = Result_ok v
   \<and> Option_okOr Option_none e = Result_err e
   \<and> Option_okOrElse (Option_some v) errorFn s = (Inr (Result_ok v), s)
   \<and> (errorFn s = (Inr e, s1) \<longrightarrow> Option_okOrElse Option_none errorFn s = (Inr (Result_err e), s1))"
  by (simp add: Option_okOr_def Option_okOrElse_def Option_isSome_def Option_some_def
      Option_none_def js_bind_def js_return_def)

theorem Option_okOr_exact_witness:
  "(\<lambda>n::nat. (Inr (Error ''missing'') :: int val + int val, Suc n)) 0 = (Inr (Error ''missing''), 1)
   \<and> Option_okOr (Option_some (Prim (5::int))) (Error ''missing'') = Result_ok (Prim 5)
   \<and> Option_okOr (Option_none :: int Option) (Error ''missing'') = Result_err (Error ''missing'')
   \<and> Option_okOrElse (Option_some (Prim (5::int))) (\<lambda>n::nat. (Inr (Error ''missing''), Suc n)) 0
       = (Inr (Result_ok (Prim 5)), 0)
   \<and> Option_okOrElse (Option_none :: int Option) (\<lambda>n::nat. (Inr (Error ''missing''), Suc n)) 0
       = (Inr (Result_err (Error ''missing'')), 1)"
  using Option_okOr_exact
          [of "Prim (5::int)" "Error ''missing''" "\<lambda>n::nat. (Inr (Error ''missing''), Suc n)" 0 1]
  by simp

section \<open>Effects\<close>

text \<open>
  C4. Chaining \<open>4\<close>, \<open>+ 2\<close>, \<open>* 3\<close>, \<open>/ 2\<close> resolves to \<open>9\<close> (the numbers of the
  example are computed exactly, here as reals). If the first stage rejects, or never
  settles, so does the chain, in the state the first stage left: the mapper has not run.
  If the first stage resolves with \<open>v\<close>, the mapper is applied to \<open>v\<close> in the state
  reached by then, and the chain settles as the stage the mapper returned does, so it
  rejects when that stage rejects.
\<close>

theorem IO_chain_sequential:
  "IO_run (IO_chain (IO_chain (IO_chain (IO_from (Plain (4::real)))
        (\<lambda>v. js_return (IO_from (Plain (v + 2)))))
        (\<lambda>v. js_return (IO_from (Plain (v * 3)))))
        (\<lambda>v. js_return (IO_from (Plain (v / 2))))) s
     = (Inr (Resolved 9 :: (real, 'e) Promise), s)
   \<and> (IO_run this s = (Inr (Rejected (e :: 'e)), s1) \<longrightarrow>
        IO_run (IO_chain this mapper) s = (Inr (Rejected e), s1))
   \<and> (IO_run this s = (Inr Pending, s1) \<longrightarrow>
        IO_run (IO_chain this mapper) s = (Inr Pending, s1))
   \<and> (IO_run this s = (Inr (Resolved v), s1) \<and> mapper v s1 = (Inr next, s2)
        \<and> IO_run next s2 = (Inr q, s3) \<longrightarrow>
        IO_run (IO_chain this mapper) s = (Inr q, s3))"
proof (intro conjI impI)
  show "IO_run (IO_chain (IO_chain (IO_chain (IO_from (Plain (4::real)))
        (\<lambda>v. js_return (IO_from (Plain (v + 2)))))
        (\<lambda>v. js_return (IO_from (Plain (v * 3)))))
        (\<lambda>v. js_return (IO_from (Plain (v / 2))))) s
     = (Inr (Resolved 9), s)"
    by (simp add: IO_run_def IO_chain_def IO_from_def Promise_then_def Promise_resolve_def
        js_bind_def js_return_def)
next
  assume "IO_run this s = (Inr (Rejected e), s1)"
  then show "IO_run (IO_chain this mapper) s = (Inr (Rejected e), s1)"
    by (simp add: IO_run_def IO_chain_def Promise_then_def js_bind_def)
next
  assume "IO_run this s = (Inr Pending, s1)"
  then show "IO_run (IO_chain this mapper) s = (Inr Pending, s1)"
    by (simp add: IO_run_def IO_chain_def Promise_then_def js_bind_def)
next
  assume "IO_run this s = (Inr (Resolved v), s1) \<and> mapper v s1 = (Inr next, s2)
        \<and> IO_run next s2 = (Inr q, s3)"
  then show "IO_run (IO_chain this mapper) s = (Inr q, s3)"
    by (simp add: IO_chain_resolved)
qed

theorem IO_chain_sequential_witness:
  "IO_run (IO_chain (IO_chain (IO_chain (IO_from (Plain (4::real)))
        (\<lambda>v log. (Inr (IO_from (Plain (v + 2))), log @ [v])))
        (\<lambda>v log. (Inr (IO_from (Plain (v * 3))), log @ [v])))
        (\<lambda>v log. (Inr (IO_from (Plain (v / 2))), log @ [v]))) []
     = (Inr (Resolved 9 :: (real, string) Promise), [4, 6, 18])
   \<and> IO_run (IO_chain (IO_fromPromise (js_return (Rejected ''Oops!'')))
        (\<lambda>v log. (Inr (IO_from (Plain (v + 2))), log @ [v]))) []
     = (Inr (Rejected ''Oops!'' :: (real, string) Promise), [])
   \<and> IO_run (IO_chain (IO_fromPromise (js_return Pending))
        (\<lambda>v log. (Inr (IO_from (Plain (v + 2))), log @ [v]))) []
     = (Inr (Pending :: (real, string) Promise), [])
   \<and> IO_run (IO_chain (IO_from (Plain (5::real)))
        (\<lambda>v log. (Inr (IO_fromPromise (js_return (Rejected ''Error in chain''))), log @ [v]))) []
     = (Inr (Rejected ''Error in chain'' :: (real, string) Promise), [5])"
proof -
  let ?log = "\<lambda>(k :: real \<Rightarrow> real) v (log :: real list).
    (Inr (IO_from (Plain (k v))) :: string + (real, string, real list) IO, log @ [v])"
  have r1: "IO_run (IO_from (Plain (4::real)) :: (real, string, real list) IO) []
      = (Inr (Resolved 4), [])"
    by (simp add: IO_run_def IO_from_def Promise_resolve_def js_return_def)
  have r2: "IO_run (IO_from (Plain (6::real)) :: (real, string, real list) IO) [4]
      = (Inr (Resolved 6), [4])"
    by (simp add: IO_run_def IO_from_def Promise_resolve_def js_return_def)
  have r3: "IO_run (IO_from (Plain (18::real)) :: (real, string, real list) IO) [4, 6]
      = (Inr (Resolved 18), [4, 6])"
    by (simp add: IO_run_def IO_from_def Promise_resolve_def js_return_def)
  have r4: "IO_run (IO_from (Plain (9::real)) :: (real, string, real list) IO) [4, 6, 18]
      = (Inr (Resolved 9), [4, 6, 18])"
    by (simp add: IO_run_def IO_from_def Promise_resolve_def js_return_def)
  have c1: "IO_run (IO_chain (IO_from (Plain (4::real))) (?log (\<lambda>v. v + 2))) []
      = (Inr (Resolved 6 :: (real, string) Promise), [4])"
    using r1 r2 IO_chain_sequential
      [of "[]" "IO_from (Plain (4::real)) :: (real, string, real list) IO" _ "[]" "?log (\<lambda>v. v + 2)" 4
          "IO_from (Plain 6) :: (real, string, real list) IO" "[4]" "Resolved 6 :: (real, string) Promise" "[4]"]
    by simp
  have c2: "IO_run (IO_chain (IO_chain (IO_from (Plain (4::real))) (?log (\<lambda>v. v + 2)))
        (?log (\<lambda>v. v * 3))) []
      = (Inr (Resolved 18 :: (real, string) Promise), [4, 6])"
    using c1 r3 IO_chain_sequential
      [of "[]" "IO_chain (IO_from (Plain (4::real))) (?log (\<lambda>v. v + 2)) :: (real, string, real list) IO" _ "[4]"
          "?log (\<lambda>v. v * 3)" 6 "IO_from (Plain 18) :: (real, string, real list) IO" "[4, 6]" "Resolved 18 :: (real, string) Promise" "[4, 6]"]
    by simp
  have c3: "IO_run (IO_chain (IO_chain (IO_chain (IO_from (Plain (4::real))) (?log (\<lambda>v. v + 2)))
        (?log (\<lambda>v. v * 3))) (?log (\<lambda>v. v / 2))) []
      = (Inr (Resolved 9 :: (real, string) Promise), [4, 6, 18])"
    using c2 r4 IO_chain_sequential
      [of "[]" "IO_chain (IO_chain (IO_from (Plain (4::real))) (?log (\<lambda>v. v + 2)))
                 (?log (\<lambda>v. v * 3)) :: (real, string, real list) IO" _ "[4, 6]"
          "?log (\<lambda>v. v / 2)" 18 "IO_from (Plain 9) :: (real, string, real list) IO" "[4, 6, 18]" "Resolved 9 :: (real, string) Promise"
          "[4, 6, 18]"]
    by simp
  have rej: "IO_run (IO_fromPromise (js_return (Rejected ''Oops!'')) :: (real, string, real list) IO) []
      = (Inr (Rejected ''Oops!''), [])"
    by (simp add: IO_run_def IO_fromPromise_def js_return_def)
  have c4: "IO_run (IO_chain (IO_fromPromise (js_return (Rejected ''Oops!''))) (?log (\<lambda>v. v + 2))) []
      = (Inr (Rejected ''Oops!'' :: (real, string) Promise), [])"
    using rej IO_chain_sequential
      [of "[]" "IO_fromPromise (js_return (Rejected ''Oops!'')) :: (real, string, real list) IO" "''Oops!''" "[]"
          "?log (\<lambda>v. v + 2)"]
    by simp
  have pen: "IO_run (IO_fromPromise (js_return Pending) :: (real, string, real list) IO) []
      = (Inr Pending, [])"
    by (simp add: IO_run_def IO_fromPromise_def js_return_def)
  have c5: "IO_run (IO_chain (IO_fromPromise (js_return Pending)) (?log (\<lambda>v. v + 2))) []
      = (Inr (Pending :: (real, string) Promise), [])"
    using pen IO_chain_sequential
      [of "[]" "IO_fromPromise (js_return Pending) :: (real, string, real list) IO" _ "[]" "?log (\<lambda>v. v + 2)"]
    by simp
  have r5: "IO_run (IO_from (Plain (5::real)) :: (real, string, real list) IO) []
      = (Inr (Resolved 5), [])"
    by (simp add: IO_run_def IO_from_def Promise_resolve_def js_return_def)
  have rej2: "IO_run (IO_fromPromise (js_return (Rejected ''Error in chain''))
         :: (real, string, real list) IO) [5]
      = (Inr (Rejected ''Error in chain''), [5])"
    by (simp add: IO_run_def IO_fromPromise_def js_return_def)
  have c6: "IO_run (IO_chain (IO_from (Plain (5::real)))
        (\<lambda>v log. (Inr (IO_fromPromise (js_return (Rejected ''Error in chain''))), log @ [v]))) []
     = (Inr (Rejected ''Error in chain'' :: (real, string) Promise), [5])"
    using r5 rej2 IO_chain_sequential
      [of "[]" "IO_from (Plain (5::real)) :: (real, string, real list) IO" _ "[]"
          "\<lambda>v log. (Inr (IO_fromPromise (js_return (Rejected ''Error in chain''))), log @ [v])"
          5 "IO_fromPromise (js_return (Rejected ''Error in chain'')) :: (real, string, real list) IO" "[5]"
          "Rejected ''Error in chain'' :: (real, string) Promise" "[5]"]
    by simp
  show ?thesis
    using c3 c4 c5 c6 by simp
qed

text \<open>
  C8. When the effect rejects, \<open>catch(() => IO.from(c))\<close> resolves to \<open>c\<close>, and in
  general \<open>catch(handler)\<close> settles as the recovery effect that \<open>handler\<close> returns does.
  When the effect resolves with \<open>v\<close>, \<open>catch(handler)\<close> resolves with \<open>v\<close> in the same
  state, whatever \<open>handler\<close> would do to it (no invocation).
\<close>

theorem IO_catch_recovers:
  "(IO_run this s = (Inr (Rejected x), s1) \<longrightarrow>
      IO_run (IO_catch this (\<lambda>error. js_return (IO_from (Plain c)))) s = (Inr (Resolved c), s1))
   \<and> (IO_run this s = (Inr (Rejected x), s1) \<and> handler x s1 = (Inr recovery, s2)
        \<and> IO_run recovery s2 = (Inr q, s3) \<longrightarrow>
      IO_run (IO_catch this handler) s = (Inr q, s3))
   \<and> (IO_run this s = (Inr (Resolved v), s1) \<longrightarrow>
      IO_run (IO_catch this handler) s = (Inr (Resolved v), s1))"
  by (simp add: IO_run_def IO_catch_def IO_from_def Promise_catch_def Promise_resolve_def
      js_bind_def js_return_def)

theorem IO_catch_recovers_witness:
  "IO_run (IO_fromPromise (js_return (Rejected ''Oops!'')) :: (real, string, nat) IO) 0
     = (Inr (Rejected ''Oops!''), 0)
   \<and> IO_run (IO_catch (IO_fromPromise (js_return (Rejected ''Oops!'')))
         (\<lambda>error. js_return (IO_from (Plain (5::real))))) (0::nat)
     = (Inr (Resolved 5), 0)
   \<and> IO_run (IO_catch (IO_fromPromise (js_return (Rejected ''Oops!'')))
         (\<lambda>error calls. (Inr (IO_from (Plain (5::real))), Suc calls))) (0::nat)
     = (Inr (Resolved 5), 1)
   \<and> IO_run (IO_from (Plain 7) :: (real, string, nat) IO) 0 = (Inr (Resolved 7), 0)
   \<and> IO_run (IO_catch (IO_from (Plain 7) :: (real, string, nat) IO)
         (\<lambda>error calls. (Inr (IO_from (Plain (5::real))), Suc calls))) 0
     = (Inr (Resolved 7), 0)"
proof -
  let ?h = "\<lambda>(error :: string) (calls :: nat).
    (Inr (IO_from (Plain (5::real))) :: string + (real, string, nat) IO, Suc calls)"
  have rej: "IO_run (IO_fromPromise (js_return (Rejected ''Oops!'')) :: (real, string, nat) IO) 0
     = (Inr (Rejected ''Oops!''), 0)"
    by (simp add: IO_run_def IO_fromPromise_def js_return_def)
  have h: "?h ''Oops!'' 0 = (Inr (IO_from (Plain 5)), 1)"
    by simp
  have r5: "IO_run (IO_from (Plain 5) :: (real, string, nat) IO) 1 = (Inr (Resolved 5), 1)"
    by (simp add: IO_run_def IO_from_def Promise_resolve_def js_return_def)
  have res: "IO_run (IO_from (Plain 7) :: (real, string, nat) IO) 0 = (Inr (Resolved 7), 0)"
    by (simp add: IO_run_def IO_from_def Promise_resolve_def js_return_def)
  show ?thesis
    using rej h r5 res
      IO_catch_recovers
        [of "IO_fromPromise (js_return (Rejected ''Oops!'')) :: (real, string, nat) IO" 0
            "''Oops!''" 0 5 ?h "IO_from (Plain 5) :: (real, string, nat) IO" 1
            "Resolved 5 :: (real, string) Promise" 1]
      IO_catch_recovers
        [of "IO_from (Plain 7) :: (real, string, nat) IO" 0 _ 0 _ ?h _ _ _ _ 7]
    by simp
qed

end
